theory Spec2Isabelle
  imports Complex_Main
begin

section \<open>JavaScript values\<close>

text \<open>
  The value \<open>response.json()\<close> produces, and the values the gateway builds from it.
  \<open>JNum\<close> holds the number that was parsed; the code below only ever tests a number
  for truthiness or passes it on.  \<open>JObj\<close> lists the own properties of an object, each
  key once.  Identifiers, keys and the strings inside such a value are \<open>string\<close>s: the
  code passes them on or compares them, and tests them for being empty.
\<close>

datatype jsval =
    JUndefined
  | JNull
  | JBool bool
  | JNum rat
  | JStr string
  | JArr "jsval list"
  | JObj "(string \<times> jsval) list"

datatype js_error = TypeError | ApiError nat string | NetworkError string

text \<open>Truthiness, as \<open>||\<close>, \<open>&&\<close> and \<open>if\<close> test it.\<close>

fun truthy :: "jsval \<Rightarrow> bool" where
  "truthy JUndefined = False"
| "truthy JNull = False"
| "truthy (JBool b) = b"
| "truthy (JNum n) = (n \<noteq> 0)"
| "truthy (JStr s) = (s \<noteq> [])"
| "truthy (JArr xs) = True"
| "truthy (JObj kvs) = True"

fun nullish :: "jsval \<Rightarrow> bool" where
  "nullish JUndefined = True"
| "nullish JNull = True"
| "nullish v = False"

text \<open>
  \<open>v.k\<close> for a receiver that is neither \<open>null\<close> nor \<open>undefined\<close> and a key that
  is not an index, \<open>length\<close> or a prototype method: only an object has such a property.
  The callers check for a nullish receiver, where the source throws a TypeError.
\<close>

fun get_prop :: "jsval \<Rightarrow> string \<Rightarrow> jsval" where
  "get_prop (JObj kvs) k = (case map_of kvs k of Some v \<Rightarrow> v | None \<Rightarrow> JUndefined)"
| "get_prop v k = JUndefined"

text \<open>\<open>v?.k\<close>: \<open>undefined\<close> for a nullish receiver.\<close>

definition opt_prop :: "jsval \<Rightarrow> string \<Rightarrow> jsval" where
  "opt_prop v k = (if nullish v then JUndefined else get_prop v k)"

text \<open>\<open>a || b\<close> on values.\<close>

definition js_or :: "jsval \<Rightarrow> jsval \<Rightarrow> jsval" where
  "js_or a b = (if truthy a then a else b)"

fun isArray :: "jsval \<Rightarrow> bool" where
  "isArray (JArr xs) = True"
| "isArray v = False"

fun elems :: "jsval \<Rightarrow> jsval list" where
  "elems (JArr xs) = xs"
| "elems v = []"

text \<open>Decimal digits of a number, as a template literal prints \<open>Date.now()\<close> or an index.\<close>

fun show_nat :: "nat \<Rightarrow> string" where
  "show_nat n =
     (if n < 10 then [''0123456789'' ! n]
      else show_nat (n div 10) @ [''0123456789'' ! (n mod 10)])"

declare show_nat.simps [simp del]

section \<open>Backend Gateway: \<open>chatApi.sendMessage\<close>, the response normalisation\<close>

datatype role = User | Assistant

text \<open>
  The \<open>primaryMessage\<close> object literal.  \<open>pm_id\<close> and \<open>pm_content\<close> are whatever
  the \<open>||\<close> chains select, and \<open>pm_timestamp_arg\<close> is the argument given to
  \<open>new Date\<close>.
\<close>

record primary_message =
  pm_id :: jsval
  pm_chatId :: string
  pm_userId :: string
  pm_agentId :: string
  pm_content :: jsval
  pm_role :: role
  pm_timestamp_arg :: jsval

text \<open>
  What \<open>chatApi.sendMessage\<close> resolves to on the real path: the message alone, or the
  object \<open>{isMultiMessage: true, messages, totalMessages, primaryMessage}\<close>.
\<close>

datatype send_result =
    SingleFormat primary_message
  | MultiFormat "jsval list" nat primary_message

text \<open>
  The callback of \<open>result.data.messages.map\<close>:
  \<open>typeof msg === 'string' ? msg : msg.content\<close>, a TypeError on \<open>null\<close>.
\<close>

fun msg_text :: "jsval \<Rightarrow> js_error + jsval" where
  "msg_text (JStr s) = Inr (JStr s)"
| "msg_text JNull = Inl TypeError"
| "msg_text JUndefined = Inl TypeError"
| "msg_text v = Inr (get_prop v ''content'')"

fun map_msg_text :: "jsval list \<Rightarrow> js_error + jsval list" where
  "map_msg_text [] = Inr []"
| "map_msg_text (m # ms) =
     (case msg_text m of
        Inl e \<Rightarrow> Inl e
      | Inr t \<Rightarrow> (case map_msg_text ms of Inl e \<Rightarrow> Inl e | Inr ts \<Rightarrow> Inr (t # ts)))"

text \<open>
  The three detection steps of \<open>chatApi.sendMessage\<close> update the locals
  \<open>isMultiMessage\<close>, \<open>messages\<close> and \<open>totalMessages\<close>.
\<close>

record detection =
  d_isMultiMessage :: bool
  d_messages :: "jsval list"
  d_totalMessages :: nat

definition detect_init :: detection where
  "detect_init = \<lparr>d_isMultiMessage = False, d_messages = [], d_totalMessages = 1\<rparr>"

definition detect_flag :: "jsval \<Rightarrow> detection \<Rightarrow> detection" where
  "detect_flag result d =
     (if truthy (js_or (get_prop result ''isMultiMessage'') (get_prop result ''is_multi_message''))
      then d\<lparr>d_isMultiMessage := True\<rparr> else d)"

definition detect_array :: "jsval \<Rightarrow> detection \<Rightarrow> detection" where
  "detect_array result d =
     (let ms = get_prop result ''messages'' in
      if truthy ms \<and> isArray ms \<and> length (elems ms) > 1
      then d\<lparr>d_isMultiMessage := True, d_messages := elems ms,
               d_totalMessages := length (elems ms)\<rparr>
      else d)"

definition detect_nested :: "jsval \<Rightarrow> detection \<Rightarrow> js_error + detection" where
  "detect_nested result d =
     (let dat = get_prop result ''data''; ms = get_prop dat ''messages'' in
      if truthy dat \<and> truthy ms \<and> isArray ms \<and> length (elems ms) > 1
      then (case map_msg_text (elems ms) of
              Inl e \<Rightarrow> Inl e
            | Inr ts \<Rightarrow> Inr (d\<lparr>d_isMultiMessage := True, d_messages := ts,
                                 d_totalMessages := length (elems ms)\<rparr>))
      else Inr d)"

definition primaryContent :: "jsval \<Rightarrow> detection \<Rightarrow> jsval" where
  "primaryContent result d =
     js_or (opt_prop (get_prop result ''data'') ''content'')
       (js_or (get_prop result ''content'')
          (if length (d_messages d) > 0 then hd (d_messages d) else JStr ''No content''))"

definition primaryMessage :: "nat \<Rightarrow> string \<Rightarrow> string \<Rightarrow> jsval \<Rightarrow> detection \<Rightarrow> primary_message" where
  "primaryMessage now chatId agentId result d =
     \<lparr>pm_id = js_or (opt_prop (get_prop result ''data'') ''id'')
                (js_or (get_prop result ''id'') (JStr (''msg-'' @ show_nat now))),
      pm_chatId = chatId,
      pm_userId = ''ai'',
      pm_agentId = agentId,
      pm_content = primaryContent result d,
      pm_role = Assistant,
      pm_timestamp_arg = js_or (opt_prop (get_prop result ''data'') ''timestamp'')
                (js_or (get_prop result ''timestamp'') (JNum (of_nat now)))\<rparr>"

text \<open>
  The part of \<open>chatApi.sendMessage\<close> after \<open>const result = await response.json()\<close>.
  \<open>now\<close> is the reading of \<open>Date.now()\<close>.  Reading a property of \<open>null\<close> throws.
\<close>

definition sendMessage_normalize ::
    "nat \<Rightarrow> string \<Rightarrow> string \<Rightarrow> jsval \<Rightarrow> js_error + send_result" where
  "sendMessage_normalize now chatId agentId result =
     (if nullish result then Inl TypeError
      else case detect_nested result (detect_array result (detect_flag result detect_init)) of
             Inl e \<Rightarrow> Inl e
           | Inr d \<Rightarrow>
               (let pm = primaryMessage now chatId agentId result d in
                if d_isMultiMessage d \<and> length (d_messages d) > 1
                then Inr (MultiFormat (d_messages d) (d_totalMessages d) pm)
                else Inr (SingleFormat pm)))"

text \<open>
  The reply batch a result stands for: the fragment list of the multi format, the one
  content of the single format.
\<close>

fun fragments :: "send_result \<Rightarrow> jsval list" where
  "fragments (MultiFormat ms n pm) = ms"
| "fragments (SingleFormat pm) = [pm_content pm]"

section \<open>Messages\<close>

text \<open>
  The text of a message and of the input field is a JavaScript string whose length and
  white space the code looks at: a list of UTF-16 code units, each a number below 65536,
  so that \<open>length\<close> is the \<open>.length\<close> of the source.  \<open>units\<close> gives the code
  units of a literal of ASCII characters.
\<close>

type_synonym ustring = "nat list"

definition units :: "string \<Rightarrow> ustring" where
  "units s = map of_char s"

text \<open>
  The \<open>Message\<close> objects of the client, with the fields the code gives them.  A
  \<open>Date\<close> is its time in milliseconds.  The five multi-message properties are optional.
\<close>

record message =
  m_id :: string
  m_chatId :: string
  m_userId :: string
  m_agentId :: string
  m_content :: ustring
  m_role :: role
  m_timestamp :: nat
  m_isMultiMessage :: "bool option"
  m_isFirst :: "bool option"
  m_isAdditional :: "bool option"
  m_messageIndex :: "nat option"
  m_totalMessages :: "nat option"

text \<open>\<open>s.startsWith(p)\<close>\<close>

definition startsWith :: "string \<Rightarrow> string \<Rightarrow> bool" where
  "startsWith s p = (take (length p) s = p)"

section \<open>Demo Responder: the demo branch of \<open>chatApi.sendMessageMulti\<close>\<close>

text \<open>
  The value \<open>chatApi.sendMessageMulti\<close> resolves to:
  \<open>{success, data: {isMultiMessage, totalMessages, messages}}\<close>.
\<close>

record multi_response =
  r_success :: bool
  r_isMultiMessage :: bool
  r_totalMessages :: nat
  r_messages :: "message list"

text \<open>
  The canned replies; the emoji that ends the last one (U+1F60A) is its two surrogate code
  units.
\<close>

definition demoResponses :: "ustring list" where
  "demoResponses =
    [units ''That's such an interesting question! I'm really glad you asked me that.'',
     units ''You know, I've been thinking about this topic a lot lately, and I have quite a few thoughts to share.'',
     units ''First, let me tell you what I find most fascinating about this...'',
     units ''And another thing that really excites me is how we can explore this together!'',
     units ''I hope this gives you some good insights to think about! '' @ [0xD83D, 0xDE0A]]"

text \<open>
  \<open>token?.startsWith('demo-token-') || chatId?.startsWith('demo-chat-')\<close>, with the
  token read from local storage (\<open>None\<close> when there is none).
\<close>

definition demo_mode :: "string option \<Rightarrow> string \<Rightarrow> bool" where
  "demo_mode token chatId =
     ((case token of None \<Rightarrow> False | Some t \<Rightarrow> startsWith t ''demo-token-'')
      \<or> startsWith chatId ''demo-chat-'')"

text \<open>
  The callback of \<open>selectedResponses.map\<close>.  \<open>clock k\<close> is the \<open>k\<close>-th reading of
  \<open>Date.now()\<close> during the call; the element at \<open>index\<close> reads it twice, for its id
  and for its timestamp.
\<close>

definition demo_message ::
    "(nat \<Rightarrow> nat) \<Rightarrow> string \<Rightarrow> string \<Rightarrow> nat \<Rightarrow> nat \<times> ustring \<Rightarrow> message" where
  "demo_message clock chatId agentId numMessages ir =
     (case ir of (index, response) \<Rightarrow>
       \<lparr>m_id = ''demo-multi-'' @ show_nat (clock (2 * index)) @ ''-'' @ show_nat index,
        m_chatId = chatId,
        m_userId = ''ai'',
        m_agentId = agentId,
        m_content = response,
        m_role = Assistant,
        m_timestamp = clock (2 * index + 1) + index * 100,
        m_isMultiMessage = Some True,
        m_isFirst = Some (index = 0),
        m_isAdditional = Some (index > 0),
        m_messageIndex = Some (index + 1),
        m_totalMessages = Some numMessages\<rparr>)"

text \<open>
  \<open>chatApi.sendMessageMulti\<close>.  \<open>rnd\<close> is the value of \<open>Math.random()\<close>,
  \<open>backend\<close> the outcome of the real request (\<open>fetch\<close> and \<open>handleResponse\<close>),
  which the demo branch never makes.  The product \<open>rnd * 3\<close> is taken exactly, where
  the code rounds it to a double: for a few draws (the double nearest to 2/3 is one) the
  code's count is one more than the count here; both are 2, 3 or 4 for every draw.
\<close>

definition sendMessageMulti ::
    "string option \<Rightarrow> rat \<Rightarrow> (nat \<Rightarrow> nat) \<Rightarrow> (js_error + multi_response)
      \<Rightarrow> string \<Rightarrow> ustring \<Rightarrow> string \<Rightarrow> js_error + multi_response" where
  "sendMessageMulti token rnd clock backend chatId content agentId =
     (if demo_mode token chatId then
        (let numMessages = nat \<lfloor>rnd * 3\<rfloor> + 2;
             selectedResponses = take numMessages demoResponses
         in Inr \<lparr>r_success = True,
                 r_isMultiMessage = True,
                 r_totalMessages = numMessages,
                 r_messages = map (demo_message clock chatId agentId numMessages)
                                (enumerate 0 selectedResponses)\<rparr>)
      else backend)"

text \<open>
  The shape of a batch of the Demo Responder: two to four messages, \<open>totalMessages\<close>
  their number on the batch and on every message, \<open>messageIndex\<close> running from 1 to that
  number, \<open>isFirst\<close> on the first message alone (the one with index 1),
  \<open>isAdditional\<close> on the messages with an index above 1, timestamps strictly increasing.
\<close>

definition well_formed_batch :: "multi_response \<Rightarrow> bool" where
  "well_formed_batch resp =
     (let ms = r_messages resp; n = length ms in
        n \<in> {2, 3, 4}
      \<and> r_totalMessages resp = n
      \<and> map m_messageIndex ms = map Some [1 ..< n + 1]
      \<and> list_all (\<lambda>m. m_totalMessages m = Some n) ms
      \<and> filter (\<lambda>m. m_isFirst m = Some True) ms = [hd ms]
      \<and> m_messageIndex (hd ms) = Some 1
      \<and> list_all (\<lambda>m. m_isAdditional m = map_option (\<lambda>i. i > 1) (m_messageIndex m)) ms
      \<and> sorted_wrt (<) (map m_timestamp ms))"

section \<open>Streaming transport: the real path of \<open>chatApi.sendMessageStream\<close>\<close>

text \<open>
  The calls the transport makes, in order: \<open>onMessage\<close>, \<open>onComplete\<close>,
  \<open>onError\<close>, and \<open>console.warn\<close> for a record that does not parse.
\<close>

datatype callback = OnMessage jsval | OnComplete | OnError jsval | Warn string

text \<open>\<open>chunk.split('\n')\<close>: one piece more than there are line feeds.\<close>

fun split_lines :: "string \<Rightarrow> string list" where
  "split_lines [] = [[]]"
| "split_lines (c # cs) =
     (if c = CHR 0x0A then [] # split_lines cs
      else (case split_lines cs of l # ls \<Rightarrow> (c # l) # ls | [] \<Rightarrow> [[c]]))"

text \<open>
  The body of the \<open>for (const line of lines)\<close> loop.  \<open>parse\<close> is \<open>JSON.parse\<close>
  (\<open>None\<close> where it throws).  The result is the calls made and whether the function
  returned.  Reading \<open>data.type\<close> of a parsed \<open>null\<close> throws inside the same
  \<open>try\<close>, so it ends in the warning too.
\<close>

definition handle_line :: "(string \<Rightarrow> jsval option) \<Rightarrow> string \<Rightarrow> callback list \<times> bool" where
  "handle_line parse line =
     (if startsWith line ''data: '' then
        (case parse (drop 6 line) of
           None \<Rightarrow> ([Warn line], False)
         | Some dat \<Rightarrow>
             if nullish dat then ([Warn line], False)
             else if get_prop dat ''type'' = JStr ''connected''
               then ([OnMessage (JObj [(''type'', JStr ''connected'')])], False)
             else if get_prop dat ''type'' = JStr ''message''
               then ([OnMessage (JObj [(''type'', JStr ''message''),
                                       (''data'', get_prop dat ''data'')])], False)
             else if get_prop dat ''type'' = JStr ''complete'' then ([OnComplete], False)
             else if get_prop dat ''type'' = JStr ''error''
               then ([OnError (get_prop dat ''error'')], True)
             else ([], False))
      else ([], False))"

fun handle_lines :: "(string \<Rightarrow> jsval option) \<Rightarrow> string list \<Rightarrow> callback list \<times> bool" where
  "handle_lines parse [] = ([], False)"
| "handle_lines parse (l # ls) =
     (case handle_line parse l of
        (cs, True) \<Rightarrow> (cs, True)
      | (cs, False) \<Rightarrow> (case handle_lines parse ls of (cs', r) \<Rightarrow> (cs @ cs', r)))"

text \<open>
  What \<open>reader.read()\<close> gives, one entry per call: a decoded chunk, or a rejection with
  its message.  After the last entry the reader is done.
\<close>

datatype read_result = Chunk string | ReadFailed string

fun read_loop :: "(string \<Rightarrow> jsval option) \<Rightarrow> read_result list \<Rightarrow> callback list" where
  "read_loop parse [] = []"
| "read_loop parse (ReadFailed msg # rs) = [OnError (JStr msg)]"
| "read_loop parse (Chunk chunk # rs) =
     (case handle_lines parse (split_lines chunk) of
        (cs, True) \<Rightarrow> cs
      | (cs, False) \<Rightarrow> cs @ read_loop parse rs)"

text \<open>
  The real streaming call.  \<open>response\<close> is the outcome of \<open>fetch\<close>: a rejection with
  its message, a response without a body, or the reads of its body.
\<close>

datatype stream_response = FetchFailed string | NoBody | Body "read_result list"

fun sendMessageStream :: "(string \<Rightarrow> jsval option) \<Rightarrow> stream_response \<Rightarrow> callback list" where
  "sendMessageStream parse (FetchFailed msg) = [OnError (JStr msg)]"
| "sendMessageStream parse NoBody = [OnError (JStr ''Streaming not supported'')]"
| "sendMessageStream parse (Body rs) = read_loop parse rs"

section \<open>Chat Session Controller: the component \<open>WhatsAppChat\<close>\<close>

record chat =
  chat_id :: string
  chat_userId :: string
  chat_agentId :: string
  chat_title :: string
  chat_createdAt :: nat
  chat_updatedAt :: nat
  chat_messageCount :: nat
  chat_lastMessage :: string

text \<open>
  The state of the component: its \<open>useState\<close> cells.  \<open>initializeChat\<close> fills
  \<open>currentChat\<close> and puts the welcome message into \<open>messages\<close> once, when the
  component is mounted and before the guard of \<open>sendMessage\<close> lets a turn through;
  what follows models the turns.
\<close>

record session =
  message :: ustring
  messages :: "message list"
  currentChat :: "chat option"
  isLoading :: bool
  isSending :: bool
  isDemoMode :: bool

text \<open>
  What an asynchronous function of the component does, in program order.  The first four
  steps are the state setters, \<open>AppendMessage m\<close> being
  \<open>setMessages(prev => [...prev, m])\<close>.  \<open>Delay ms\<close> is
  \<open>await new Promise(resolve => setTimeout(resolve, ms))\<close>.  The two gateway steps are
  the awaited calls of \<open>chatApi\<close>, with chat id, text and agent id, and the time the
  promise takes to settle.  \<open>SetTimeoutAppend ms m\<close> is the timer of the fallback,
  \<open>setTimeout(() => setMessages(prev => [...prev, m]), ms)\<close>, which is not awaited.
\<close>

datatype step =
    SetMessage ustring
  | SetIsSending bool
  | SetIsDemoMode bool
  | AppendMessage message
  | Delay nat
  | Await_sendMessageMulti string ustring string nat
  | Await_sendMessage string ustring string nat
  | SetTimeoutAppend nat message

fun apply_step :: "step \<Rightarrow> session \<Rightarrow> session" where
  "apply_step (SetMessage t) s = s\<lparr>message := t\<rparr>"
| "apply_step (SetIsSending b) s = s\<lparr>isSending := b\<rparr>"
| "apply_step (SetIsDemoMode b) s = s\<lparr>isDemoMode := b\<rparr>"
| "apply_step (AppendMessage m) s = s\<lparr>messages := messages s @ [m]\<rparr>"
| "apply_step (Delay ms) s = s"
| "apply_step (Await_sendMessageMulti c t a ms) s = s"
| "apply_step (Await_sendMessage c t a ms) s = s"
| "apply_step (SetTimeoutAppend ms m) s = s"

text \<open>The state after a sequence of steps.\<close>

fun exec :: "step list \<Rightarrow> session \<Rightarrow> session" where
  "exec [] s = s"
| "exec (x # xs) s = exec xs (apply_step x s)"

text \<open>
  The \<open>options\<close> argument of \<open>displayMessageWithTyping\<close>.  Only the truthiness of
  \<open>isFirst\<close> and \<open>isAdditional\<close> is read, so a missing property is \<open>False\<close>.
\<close>

record display_options =
  o_isFirst :: bool
  o_isAdditional :: bool
  o_messageIndex :: "nat option"
  o_totalMessages :: "nat option"

definition no_options :: display_options where
  "no_options = \<lparr>o_isFirst = False, o_isAdditional = False,
                  o_messageIndex = None, o_totalMessages = None\<rparr>"

text \<open>\<open>Math.min(message.content.length * 50, 3000)\<close>\<close>

definition typingDelay :: "message \<Rightarrow> nat" where
  "typingDelay m = min (length (m_content m) * 50) 3000"

definition displayMessageWithTyping :: "message \<Rightarrow> display_options \<Rightarrow> step list" where
  "displayMessageWithTyping m options =
     (if o_isFirst options then [SetIsSending True] else [])
     @ [Delay (typingDelay m)]
     @ (if o_isFirst options \<or> \<not> o_isAdditional options then [SetIsSending False] else [])
     @ [AppendMessage m]"

text \<open>
  The \<open>for\<close> loop of \<open>sendMessageWithMultiResponse\<close> from index \<open>i\<close> over the
  messages that remain; \<open>n\<close> is \<open>response.data.messages.length\<close>.
\<close>

fun display_loop :: "nat \<Rightarrow> nat \<Rightarrow> nat \<Rightarrow> message list \<Rightarrow> step list" where
  "display_loop totalMessages n i [] = []"
| "display_loop totalMessages n i (m # ms) =
     displayMessageWithTyping m
       \<lparr>o_isFirst = (i = 0), o_isAdditional = (i > 0),
        o_messageIndex = Some (i + 1), o_totalMessages = Some totalMessages\<rparr>
     @ (if i < n - 1 then [Delay 1500] else [])
     @ display_loop totalMessages n (i + 1) ms"

text \<open>
  The reveal of a multi-message response of the declared type: the loop from index 0.
\<close>

definition reveal :: "multi_response \<Rightarrow> step list" where
  "reveal response =
     display_loop (r_totalMessages response) (length (r_messages response)) 0
       (r_messages response)"

text \<open>
  \<open>chatApi.sendMessageMulti\<close> hands the body of the backend's reply on unchecked, so
  the \<open>try\<close> block of \<open>sendMessageWithMultiResponse\<close> can throw after the call has
  resolved.  The value the call resolved to, as far as that block reads it, for a body
  whose fields have the declared types where they are present:
  \<^item> \<open>ResolvedNull\<close>: the body \<open>null\<close>, where reading \<open>response.success\<close> throws;
  \<^item> \<open>ResolvedNoData success\<close>: no \<open>data\<close>, where reading
    \<open>response.data.isMultiMessage\<close> or \<open>response.data.messages\<close> throws;
  \<^item> \<open>ResolvedNoMessages success isMultiMessage\<close>: a \<open>data\<close> without
    \<open>messages\<close>, where reading \<open>response.data.messages.length\<close> throws;
  \<^item> \<open>Resolved success isMultiMessage totalMessages messages\<close>: a \<open>data\<close>
    with its \<open>messages\<close>.  An element \<open>None\<close> is one that is \<open>null\<close> or has no
    \<open>content\<close>, where reading \<open>message.content.length\<close> throws.
  The two flags are read for their truthiness only, so a missing one is \<open>False\<close>.
  Which statement throws depends on nothing else: the presence of \<open>data\<close> and of
  \<open>messages\<close>, the truthiness of the flags, and for each element whether reading the
  length of its content throws.
\<close>

datatype resolved =
    ResolvedNull
  | ResolvedNoData bool
  | ResolvedNoMessages bool bool
  | Resolved bool bool "nat option" "message option list"

text \<open>A response of the declared type, as the value resolved to.\<close>

definition resolved_of :: "multi_response \<Rightarrow> resolved" where
  "resolved_of response =
     Resolved (r_success response) (r_isMultiMessage response)
       (Some (r_totalMessages response)) (map Some (r_messages response))"

text \<open>
  \<open>displayMessageWithTyping\<close> on an element of \<open>messages\<close>: the steps it does, and
  whether it threw.  On an element without content it throws at
  \<open>message.content.length\<close>, after the \<open>setIsSending(true)\<close> of a first message.
\<close>

definition displayMessageWithTyping_try ::
    "message option \<Rightarrow> display_options \<Rightarrow> step list \<times> bool" where
  "displayMessageWithTyping_try x options =
     (case x of
        Some m \<Rightarrow> (displayMessageWithTyping m options, False)
      | None \<Rightarrow> ((if o_isFirst options then [SetIsSending True] else []), True))"

text \<open>The \<open>for\<close> loop on such elements: it ends where an element throws.\<close>

fun display_loop_try ::
    "nat option \<Rightarrow> nat \<Rightarrow> nat \<Rightarrow> message option list \<Rightarrow> step list \<times> bool" where
  "display_loop_try totalMessages n i [] = ([], False)"
| "display_loop_try totalMessages n i (x # xs) =
     (case displayMessageWithTyping_try x
             \<lparr>o_isFirst = (i = 0), o_isAdditional = (i > 0),
              o_messageIndex = Some (i + 1), o_totalMessages = totalMessages\<rparr> of
        (k, True) \<Rightarrow> (k, True)
      | (k, False) \<Rightarrow>
          (case display_loop_try totalMessages n (i + 1) xs of
             (k', threw) \<Rightarrow> (k @ (if i < n - 1 then [Delay 1500] else []) @ k', threw)))"

text \<open>
  The statements of the \<open>try\<close> block after the call has resolved: the steps done, and
  whether one of them threw.
\<close>

fun try_block :: "resolved \<Rightarrow> step list \<times> bool" where
  "try_block ResolvedNull = ([], True)"
| "try_block (ResolvedNoData success) = ([], True)"
| "try_block (ResolvedNoMessages success isMulti) = ([], True)"
| "try_block (Resolved success isMulti totalMessages ms) =
     (if success \<and> isMulti then display_loop_try totalMessages (length ms) 0 ms
      else if length ms > 0 then displayMessageWithTyping_try (ms ! 0) no_options
      else ([], False))"

text \<open>
  What \<open>chatApi.sendMessage\<close> is declared to resolve to: a \<open>Message\<close>, or the
  multi-message object, which has no \<open>content\<close>, \<open>id\<close> or \<open>timestamp\<close> of its own.
\<close>

datatype single_response =
    RMessage message
  | RMulti bool "ustring list" nat message

text \<open>
  Everything a turn reads from outside the component: the signed-in user's id, the clock
  at each place that reads it, the outcomes of the two gateway calls (\<open>Inl\<close> when the
  promise rejects) with the time they take, and the two values of \<open>Math.random()\<close>.
  The single-message call resolves to a value of its declared type.
  The demo branch of \<open>chatApi.sendMessage\<close>, which also dispatches a
  \<open>demoMessage\<close> event later, is not among the outcomes: the fallback calls
  \<open>chatApi.sendMessage\<close> only from the \<open>catch\<close> of the multi-message attempt, and
  under the same demo condition \<open>chatApi.sendMessageMulti\<close> resolves to a batch of the
  declared type, on which the \<open>try\<close> block does not throw.
\<close>

record env =
  e_user_id :: "string option"
  e_now_user_id :: nat
  e_now_user_ts :: nat
  e_multi :: "js_error + resolved"
  e_multi_latency :: nat
  e_single :: "js_error + single_response"
  e_single_latency :: nat
  e_now_ai_id :: nat
  e_now_ai_ts :: nat
  e_rnd_delay :: rat
  e_rnd_priya :: rat
  e_now_demo_id :: nat
  e_now_demo_ts :: nat

definition priyaResponses :: "ustring list" where
  "priyaResponses = map units
    [''I'm here for you! Tell me more about what's on your mind. I love having these conversations with you.'',
     ''That sounds really interesting! I'd love to hear more about that. You always have such thoughtful perspectives.'',
     ''You're so thoughtful! I appreciate you sharing that with me. It means a lot that you trust me with your thoughts.'',
     ''I'm always here to listen and chat about whatever is important to you. What's been making you happy lately?'',
     ''Thank you for opening up to me. I enjoy our conversations so much. How are you feeling about everything?'',
     ''That's such an interesting way to look at it! I really appreciate how you think about things.'',
     ''I can tell this is important to you. I'm here to listen and support you through whatever you're going through.'',
     ''You have such a unique perspective on things. I always learn something new when we talk.'',
     ''I'm so glad you feel comfortable sharing with me. Your thoughts and feelings matter so much.'',
     ''That resonates with me deeply. How long have you been thinking about this?'',
     ''I can hear the emotion in your words. It's beautiful how deeply you feel about things.'',
     ''You're such a caring person. The world needs more people like you who think about these things.'',
     ''I love how open and honest you are with me. It makes our conversations so meaningful.'',
     ''That's a really important question. I think about things like that too sometimes.'',
     ''You always know how to make me think! I really value our conversations and your insights.'']"

text \<open>
  \<open>priyaResponses[Math.floor(Math.random() * priyaResponses.length)]\<close>.  With
  \<open>Math.random()\<close> in \<open>[0, 1)\<close> the index is below 15; the empty text stands for the
  \<open>undefined\<close> of an index outside the array, which no run reaches.
\<close>

definition getPriyaResponse :: "rat \<Rightarrow> ustring \<Rightarrow> ustring" where
  "getPriyaResponse rnd userMsg =
     (let i = nat \<lfloor>rnd * of_nat (length priyaResponses)\<rfloor>
      in if i < length priyaResponses then priyaResponses ! i else [])"

text \<open>
  The timer at the end of \<open>sendMessageFallback\<close>: after
  \<open>1500 + Math.random() * 1500\<close> milliseconds (a timer takes whole milliseconds) it
  appends a reply of \<open>getPriyaResponse\<close>.
\<close>

definition demo_reply_timer :: "env \<Rightarrow> chat \<Rightarrow> ustring \<Rightarrow> string \<Rightarrow> step" where
  "demo_reply_timer e c messageText agentId =
     SetTimeoutAppend (nat \<lfloor>1500 + e_rnd_delay e * 1500\<rfloor>)
       \<lparr>m_id = ''ai-demo-'' @ show_nat (e_now_demo_id e),
        m_chatId = chat_id c,
        m_userId = ''ai'',
        m_agentId = agentId,
        m_content = getPriyaResponse (e_rnd_priya e) messageText,
        m_role = Assistant,
        m_timestamp = e_now_demo_ts e,
        m_isMultiMessage = None, m_isFirst = None, m_isAdditional = None,
        m_messageIndex = None, m_totalMessages = None\<rparr>"

text \<open>
  \<open>response.content\<close>, \<open>response.id\<close> and \<open>response.timestamp\<close> of the value
  \<open>chatApi.sendMessage\<close> resolved to; the multi-message object has none of them.
\<close>

fun response_content :: "single_response \<Rightarrow> ustring option" where
  "response_content (RMessage m) = Some (m_content m)"
| "response_content (RMulti f ms n pm) = None"

fun response_id :: "single_response \<Rightarrow> string option" where
  "response_id (RMessage m) = Some (m_id m)"
| "response_id (RMulti f ms n pm) = None"

fun response_timestamp :: "single_response \<Rightarrow> nat option" where
  "response_timestamp (RMessage m) = Some (m_timestamp m)"
| "response_timestamp (RMulti f ms n pm) = None"

text \<open>
  \<open>sendMessageFallback\<close>, called with the chat of \<open>currentChat\<close> and the value of
  \<open>isDemoMode\<close> the component had when the turn began.  A text is truthy when it is not
  empty; a \<open>Date\<close> is always truthy.
\<close>

definition sendMessageFallback :: "env \<Rightarrow> bool \<Rightarrow> chat \<Rightarrow> ustring \<Rightarrow> string \<Rightarrow> step list" where
  "sendMessageFallback e demoMode c messageText agentId =
     (if \<not> demoMode then
        Await_sendMessage (chat_id c) messageText agentId (e_single_latency e) #
        (case e_single e of
           Inr response \<Rightarrow>
             (case response_content response of
                Some (x # xs) \<Rightarrow>
                  [AppendMessage
                    \<lparr>m_id = (case response_id response of
                               Some (y # ys) \<Rightarrow> y # ys
                             | _ \<Rightarrow> ''ai-'' @ show_nat (e_now_ai_id e)),
                     m_chatId = chat_id c,
                     m_userId = ''ai'',
                     m_agentId = agentId,
                     m_content = x # xs,
                     m_role = Assistant,
                     m_timestamp = (case response_timestamp response of
                               Some t \<Rightarrow> t
                             | None \<Rightarrow> e_now_ai_ts e),
                     m_isMultiMessage = None, m_isFirst = None, m_isAdditional = None,
                     m_messageIndex = None, m_totalMessages = None\<rparr>]
              | _ \<Rightarrow> [demo_reply_timer e c messageText agentId])
         | Inl apiError \<Rightarrow>
             [SetIsDemoMode True, demo_reply_timer e c messageText agentId])
      else [demo_reply_timer e c messageText agentId])"

text \<open>
  \<open>sendMessageWithMultiResponse\<close>.  The \<open>catch\<close> takes a rejected gateway call, and
  a throw of the \<open>try\<close> block after the call has resolved, to \<open>sendMessageFallback\<close>;
  the steps done before the throw stay done.
\<close>

definition sendMessageWithMultiResponse ::
    "env \<Rightarrow> bool \<Rightarrow> chat \<Rightarrow> ustring \<Rightarrow> string \<Rightarrow> step list" where
  "sendMessageWithMultiResponse e demoMode c messageText agentId =
     Await_sendMessageMulti (chat_id c) messageText agentId (e_multi_latency e) #
     (case e_multi e of
        Inr response \<Rightarrow>
          (case try_block response of
             (k, False) \<Rightarrow> k
           | (k, True) \<Rightarrow> k @ sendMessageFallback e demoMode c messageText agentId)
      | Inl error \<Rightarrow> sendMessageFallback e demoMode c messageText agentId)"


text \<open>
  \<open>message.trim()\<close> removes white space and line terminators from both ends: tab, line
  feed, vertical tab, form feed, carriage return, space, no-break space, U+1680, U+2000 to
  U+200A, U+2028, U+2029, U+202F, U+205F, U+3000 and U+FEFF, each one code unit.
\<close>

definition is_space :: "nat \<Rightarrow> bool" where
  "is_space u =
     (u \<in> set [0x09, 0x0A, 0x0B, 0x0C, 0x0D, 0x20, 0xA0, 0x1680,
                0x2000, 0x2001, 0x2002, 0x2003, 0x2004, 0x2005, 0x2006, 0x2007, 0x2008,
                0x2009, 0x200A, 0x2028, 0x2029, 0x202F, 0x205F, 0x3000, 0xFEFF])"

definition trim :: "ustring \<Rightarrow> ustring" where
  "trim t = rev (dropWhile is_space (rev (dropWhile is_space t)))"

text \<open>\<open>getAgentId\<close> returns the same agent for every expert name.\<close>

definition getAgentId :: "string \<Rightarrow> string" where
  "getAgentId expertName = ''priya''"

text \<open>
  \<open>sendMessage\<close>, for the state \<open>s\<close> the component is in when the handler runs.  The
  guard returns without a step; otherwise the steps of the \<open>try\<close> block are followed by
  the \<open>finally\<close>.
\<close>

definition sendMessage :: "env \<Rightarrow> string \<Rightarrow> session \<Rightarrow> step list" where
  "sendMessage e expertName s =
     (case currentChat s of
        None \<Rightarrow> []
      | Some c \<Rightarrow>
          if trim (message s) = [] \<or> isSending s then []
          else
            [SetMessage [],
             SetIsSending True,
             AppendMessage
               \<lparr>m_id = ''user-'' @ show_nat (e_now_user_id e),
                m_chatId = chat_id c,
                m_userId = (case e_user_id e of Some (x # xs) \<Rightarrow> x # xs | _ \<Rightarrow> ''demo-user''),
                m_agentId = getAgentId expertName,
                m_content = trim (message s),
                m_role = User,
                m_timestamp = e_now_user_ts e,
                m_isMultiMessage = None, m_isFirst = None, m_isAdditional = None,
                m_messageIndex = None, m_totalMessages = None\<rparr>]
            @ sendMessageWithMultiResponse e (isDemoMode s) c (trim (message s))
                (getAgentId expertName)
            @ [SetIsSending False])"

section \<open>Pacing of a script\<close>

text \<open>
  For each append of a script, the time waited since the append before it (or since the
  start): the sum of the delays in between, on top of \<open>acc\<close>.
\<close>

fun waits :: "nat \<Rightarrow> step list \<Rightarrow> nat list" where
  "waits acc [] = []"
| "waits acc (Delay ms # k) = waits (acc + ms) k"
| "waits acc (AppendMessage m # k) = acc # waits 0 k"
| "waits acc (SetMessage t # k) = waits acc k"
| "waits acc (SetIsSending b # k) = waits acc k"
| "waits acc (SetIsDemoMode b # k) = waits acc k"
| "waits acc (Await_sendMessageMulti c t a ms # k) = waits acc k"
| "waits acc (Await_sendMessage c t a ms # k) = waits acc k"
| "waits acc (SetTimeoutAppend ms m # k) = waits acc k"

section \<open>The event loop\<close>

text \<open>
  A suspended function: the time it wakes up and the steps it still has to do.
\<close>

type_synonym task = "nat \<times> step list"

text \<open>
  Running a function at time \<open>now\<close> until it suspends.  A delay and a gateway call
  that takes time suspend it; a gateway call whose promise is already settled resumes in
  the same turn of the loop; the timer of the fallback becomes a task of its own.
\<close>

fun run_task :: "nat \<Rightarrow> step list \<Rightarrow> session \<Rightarrow> task list \<Rightarrow> session \<times> task list" where
  "run_task now [] s ts = (s, ts)"
| "run_task now (Delay ms # k) s ts = (s, ts @ [(now + ms, k)])"
| "run_task now (Await_sendMessageMulti c t a ms # k) s ts =
     (if ms = 0 then run_task now k s ts else (s, ts @ [(now + ms, k)]))"
| "run_task now (Await_sendMessage c t a ms # k) s ts =
     (if ms = 0 then run_task now k s ts else (s, ts @ [(now + ms, k)]))"
| "run_task now (SetTimeoutAppend ms m # k) s ts =
     run_task now k s (ts @ [(now + ms, [AppendMessage m])])"
| "run_task now (SetMessage t # k) s ts = run_task now k (apply_step (SetMessage t) s) ts"
| "run_task now (SetIsSending b # k) s ts = run_task now k (apply_step (SetIsSending b) s) ts"
| "run_task now (SetIsDemoMode b # k) s ts = run_task now k (apply_step (SetIsDemoMode b) s) ts"
| "run_task now (AppendMessage m # k) s ts = run_task now k (apply_step (AppendMessage m) s) ts"

text \<open>The task that wakes first; among tasks of the same time, the one registered first.\<close>

fun earliest :: "task list \<Rightarrow> task option" where
  "earliest [] = None"
| "earliest (t # ts) =
     (case earliest ts of
        None \<Rightarrow> Some t
      | Some u \<Rightarrow> if fst t \<le> fst u then Some t else Some u)"

text \<open>
  The loop itself.  A submission \<open>(t, text, e)\<close> is the user having typed \<open>text\<close> and
  pressing send at time \<open>t\<close>, in a turn that reads \<open>e\<close>; the submissions are in the
  order of their times.  Each round handles the next submission or wakes the earliest
  task, whichever comes first, until neither is left.  \<open>None\<close>: out of fuel.
\<close>

fun event_loop ::
    "nat \<Rightarrow> string \<Rightarrow> (nat \<times> ustring \<times> env) list \<Rightarrow> task list \<Rightarrow> session \<Rightarrow> session option" where
  "event_loop 0 expertName subs ts s = None"
| "event_loop (Suc fuel) expertName subs ts s =
     (case (earliest ts, subs) of
        (None, []) \<Rightarrow> Some s
      | (None, (t, text, e) # subs') \<Rightarrow>
          (case run_task t (sendMessage e expertName (s\<lparr>message := text\<rparr>))
                  (s\<lparr>message := text\<rparr>) ts of
             (s', ts') \<Rightarrow> event_loop fuel expertName subs' ts' s')
      | (Some (w, k), []) \<Rightarrow>
          (case run_task w k s (remove1 (w, k) ts) of
             (s', ts') \<Rightarrow> event_loop fuel expertName subs ts' s')
      | (Some (w, k), (t, text, e) # subs') \<Rightarrow>
          if t < w then
            (case run_task t (sendMessage e expertName (s\<lparr>message := text\<rparr>))
                    (s\<lparr>message := text\<rparr>) ts of
               (s', ts') \<Rightarrow> event_loop fuel expertName subs' ts' s')
          else
            (case run_task w k s (remove1 (w, k) ts) of
               (s', ts') \<Rightarrow> event_loop fuel expertName subs ts' s'))"

text \<open>
  One round of the loop: the time of the next event, and the submissions, tasks and state
  after it; \<open>None\<close> when no event is left.
\<close>

definition next_round ::
    "string \<Rightarrow> (nat \<times> ustring \<times> env) list \<Rightarrow> task list \<Rightarrow> session
      \<Rightarrow> (nat \<times> (nat \<times> ustring \<times> env) list \<times> task list \<times> session) option" where
  "next_round expertName subs ts s =
     (case (earliest ts, subs) of
        (None, []) \<Rightarrow> None
      | (None, (t, text, e) # subs') \<Rightarrow>
          (case run_task t (sendMessage e expertName (s\<lparr>message := text\<rparr>))
                  (s\<lparr>message := text\<rparr>) ts of
             (s', ts') \<Rightarrow> Some (t, subs', ts', s'))
      | (Some (w, k), []) \<Rightarrow>
          (case run_task w k s (remove1 (w, k) ts) of
             (s', ts') \<Rightarrow> Some (w, subs, ts', s'))
      | (Some (w, k), (t, text, e) # subs') \<Rightarrow>
          if t < w then
            (case run_task t (sendMessage e expertName (s\<lparr>message := text\<rparr>))
                    (s\<lparr>message := text\<rparr>) ts of
               (s', ts') \<Rightarrow> Some (t, subs', ts', s'))
          else
            (case run_task w k s (remove1 (w, k) ts) of
               (s', ts') \<Rightarrow> Some (w, subs, ts', s')))"

text \<open>
  What the loop shows round by round: the time of the round, the typing indicator after
  it, and the ids of the messages the round appended.
\<close>

fun event_log ::
    "nat \<Rightarrow> string \<Rightarrow> (nat \<times> ustring \<times> env) list \<Rightarrow> task list \<Rightarrow> session
      \<Rightarrow> (nat \<times> bool \<times> string list) list option" where
  "event_log 0 expertName subs ts s = None"
| "event_log (Suc fuel) expertName subs ts s =
     (case next_round expertName subs ts s of
        None \<Rightarrow> Some []
      | Some (t, subs', ts', s') \<Rightarrow>
          (case event_log fuel expertName subs' ts' s' of
             None \<Rightarrow> None
           | Some rounds \<Rightarrow>
               Some ((t, isSending s', map m_id (drop (length (messages s)) (messages s'))) # rounds)))"

section \<open>Example inputs\<close>

text \<open>A session that is ready: a chat of the backend, nothing being sent, not in demo mode.\<close>

definition ready_session :: "ustring \<Rightarrow> session" where
  "ready_session text =
     \<lparr>message = text, messages = [],
      currentChat = Some \<lparr>chat_id = ''chat-1'', chat_userId = ''u1'', chat_agentId = ''priya'',
                           chat_title = ''Chat with Priya'', chat_createdAt = 1000,
                           chat_updatedAt = 1000, chat_messageCount = 0, chat_lastMessage = []\<rparr>,
      isLoading = False, isSending = False, isDemoMode = False\<rparr>"

text \<open>A turn in which the backend is unreachable: both gateway calls reject.\<close>

definition failing_env :: env where
  "failing_env =
     \<lparr>e_user_id = Some ''u1'', e_now_user_id = 2000, e_now_user_ts = 2000,
      e_multi = Inl (NetworkError ''Failed to fetch''), e_multi_latency = 20,
      e_single = Inl (NetworkError ''Failed to fetch''), e_single_latency = 20,
      e_now_ai_id = 2040, e_now_ai_ts = 2040, e_rnd_delay = 1 / 2, e_rnd_priya = 0,
      e_now_demo_id = 4290, e_now_demo_ts = 4290\<rparr>"


text \<open>
  A session in demo mode, as \<open>initializeChat\<close> leaves it when the backend cannot
  create a chat: a chat with a \<open>demo-chat-\<close> id, the flag set.
\<close>

definition demo_chat :: chat where
  "demo_chat =
     \<lparr>chat_id = ''demo-chat-1000'', chat_userId = ''u1'', chat_agentId = ''priya'',
      chat_title = ''Chat with Priya'', chat_createdAt = 1000, chat_updatedAt = 1000,
      chat_messageCount = 0, chat_lastMessage = []\<rparr>"

definition demo_session :: session where
  "demo_session =
     \<lparr>message = [], messages = [], currentChat = Some demo_chat,
      isLoading = False, isSending = False, isDemoMode = True\<rparr>"

text \<open>
  A turn of that session begun at clock time \<open>now\<close>: the gateway call is the demo branch
  of \<open>chatApi.sendMessageMulti\<close> with \<open>Math.random() = 0\<close>, which resolves at once.
\<close>

definition demo_env :: "nat \<Rightarrow> ustring \<Rightarrow> env" where
  "demo_env now text =
     \<lparr>e_user_id = Some ''u1'', e_now_user_id = now, e_now_user_ts = now,
      e_multi = map_sum id resolved_of
                  (sendMessageMulti None 0 (\<lambda>k. now) (Inl (NetworkError ''Failed to fetch''))
                     ''demo-chat-1000'' text ''priya''),
      e_multi_latency = 0,
      e_single = Inl (NetworkError ''Failed to fetch''), e_single_latency = 0,
      e_now_ai_id = now, e_now_ai_ts = now, e_rnd_delay = 0, e_rnd_priya = 0,
      e_now_demo_id = now, e_now_demo_ts = now\<rparr>"

text \<open>
  The batch the Demo Responder returns in that session for \<open>Math.random() = 0\<close> at
  clock time 1000: its first two canned replies.
\<close>

definition two_message_batch :: multi_response where
  "two_message_batch =
     \<lparr>r_success = True, r_isMultiMessage = True, r_totalMessages = 2,
      r_messages =
        [demo_message (\<lambda>k. 1000) ''demo-chat-1000'' ''priya'' 2 (0, demoResponses ! 0),
         demo_message (\<lambda>k. 1000) ''demo-chat-1000'' ''priya'' 2 (1, demoResponses ! 1)]\<rparr>"

text \<open>
  \<open>JSON.parse\<close> on the two records of the streaming example: a \<open>complete\<close> event and
  a \<open>message\<close> event.  No other text is parsed there.
\<close>

definition example_parse :: \<open>string \<Rightarrow> jsval option\<close> where
  \<open>example_parse =
     map_of [(''{"type":"complete"}'', JObj [(''type'', JStr ''complete'')]),
             (''{"type":"message","data":"late"}'',
                JObj [(''type'', JStr ''message''), (''data'', JStr ''late'')])]\<close>

text \<open>A chunk of the stream in which a \<open>message\<close> record follows the \<open>complete\<close> record.\<close>

definition late_chunk :: \<open>string\<close> where
  \<open>late_chunk =
     ''data: {"type":"complete"}'' @ [CHR 0x0A] @
     ''data: {"type":"message","data":"late"}'' @ [CHR 0x0A]\<close>

section \<open>Verified properties\<close>

subsection \<open>Gateway normalisation\<close>

text \<open>A result of the normalisation always stands for at least one fragment.\<close>

lemma normalize_nonempty:
  "sendMessage_normalize now chatId agentId result = Inr r \<Longrightarrow> fragments r \<noteq> []"
  by (auto simp: sendMessage_normalize_def Let_def split: if_splits sum.splits)

text \<open>
  Claim C4.  A response \<open>{isMultiMessage: true, messages: ["a","b","c"]}\<close> is normalised to
  the three fragments a, b, c in that order; \<open>{content: "solo"}\<close> to the one fragment
  solo; \<open>{}\<close> to the one fragment \<open>No content\<close>, not to an error; and whatever the
  response, a normalisation that returns never returns an empty batch.
\<close>

theorem C4_normalization:
  "(\<exists>r. sendMessage_normalize now chatId agentId
          (JObj [(''isMultiMessage'', JBool True),
                 (''messages'', JArr [JStr ''a'', JStr ''b'', JStr ''c''])]) = Inr r
        \<and> fragments r = [JStr ''a'', JStr ''b'', JStr ''c''])
   \<and> (\<exists>r. sendMessage_normalize now chatId agentId (JObj [(''content'', JStr ''solo'')]) = Inr r
        \<and> fragments r = [JStr ''solo''])
   \<and> (\<exists>r. sendMessage_normalize now chatId agentId (JObj []) = Inr r
        \<and> fragments r = [JStr ''No content''])
   \<and> (sendMessage_normalize now chatId agentId result = Inr r \<longrightarrow> fragments r \<noteq> [])"
proof -
  have multi: "\<exists>r. sendMessage_normalize now chatId agentId
          (JObj [(''isMultiMessage'', JBool True),
                 (''messages'', JArr [JStr ''a'', JStr ''b'', JStr ''c''])]) = Inr r
        \<and> fragments r = [JStr ''a'', JStr ''b'', JStr ''c'']"
    by (simp add: sendMessage_normalize_def detect_nested_def detect_array_def detect_flag_def
        detect_init_def js_or_def Let_def)
  have solo: "\<exists>r. sendMessage_normalize now chatId agentId (JObj [(''content'', JStr ''solo'')]) = Inr r
        \<and> fragments r = [JStr ''solo'']"
    by (simp add: sendMessage_normalize_def detect_nested_def detect_array_def detect_flag_def
        detect_init_def js_or_def opt_prop_def primaryMessage_def primaryContent_def Let_def)
  have none: "\<exists>r. sendMessage_normalize now chatId agentId (JObj []) = Inr r
        \<and> fragments r = [JStr ''No content'']"
    by (simp add: sendMessage_normalize_def detect_nested_def detect_array_def detect_flag_def
        detect_init_def js_or_def opt_prop_def primaryMessage_def primaryContent_def Let_def)
  from multi solo none normalize_nonempty show ?thesis by blast
qed

text \<open>The last conjunct of C4 at a two-element \<open>messages\<close> array.\<close>

theorem C4_normalization_witness:
  "sendMessage_normalize 5 ''c1'' ''priya'' (JObj [(''messages'', JArr [JStr ''x'', JStr ''y''])])
     = Inr (MultiFormat [JStr ''x'', JStr ''y''] 2
         \<lparr>pm_id = JStr ''msg-5'', pm_chatId = ''c1'', pm_userId = ''ai'', pm_agentId = ''priya'',
          pm_content = JStr ''x'', pm_role = Assistant, pm_timestamp_arg = JNum 5\<rparr>)
   \<and> fragments (MultiFormat [JStr ''x'', JStr ''y''] 2
         \<lparr>pm_id = JStr ''msg-5'', pm_chatId = ''c1'', pm_userId = ''ai'', pm_agentId = ''priya'',
          pm_content = JStr ''x'', pm_role = Assistant, pm_timestamp_arg = JNum 5\<rparr>) \<noteq> []"
proof -
  have run: "sendMessage_normalize 5 ''c1'' ''priya'' (JObj [(''messages'', JArr [JStr ''x'', JStr ''y''])])
     = Inr (MultiFormat [JStr ''x'', JStr ''y''] 2
         \<lparr>pm_id = JStr ''msg-5'', pm_chatId = ''c1'', pm_userId = ''ai'', pm_agentId = ''priya'',
          pm_content = JStr ''x'', pm_role = Assistant, pm_timestamp_arg = JNum 5\<rparr>)"
    by (simp add: sendMessage_normalize_def detect_nested_def detect_array_def detect_flag_def
        detect_init_def js_or_def opt_prop_def primaryMessage_def primaryContent_def Let_def
        show_nat.simps)
  with C4_normalization [of 5 "''c1''" "''priya''" "JObj [(''messages'', JArr [JStr ''x'', JStr ''y''])]"]
  show ?thesis by blast
qed

text \<open>
  Claim C10.  For a response whose \<open>messages\<close> is an array of exactly one element,
  with no usable \<open>content\<close> (neither its own nor that of \<open>data\<close>) and no array of
  several messages under \<open>data\<close>, the array step extracts nothing (it fires for more
  than one element only), and the result is the single format with content
  \<open>No content\<close>: the element of the array is not used.
\<close>

theorem C10_single_element_array_discarded:
  assumes "get_prop result ''messages'' = JArr [x]"
    and "\<not> truthy (get_prop result ''content'')"
    and "\<not> truthy (opt_prop (get_prop result ''data'') ''content'')"
    and "length (elems (get_prop (get_prop result ''data'') ''messages'')) \<le> 1"
  shows "d_messages (detect_array result detect_init) = []
    \<and> (\<exists>pm. sendMessage_normalize now chatId agentId result = Inr (SingleFormat pm)
          \<and> pm_content pm = JStr ''No content'')"
proof -
  from assms(1) have obj: "\<not> nullish result" by (cases result) auto
  from assms obj show ?thesis
    by (simp add: sendMessage_normalize_def detect_nested_def detect_array_def detect_flag_def
        detect_init_def js_or_def primaryMessage_def primaryContent_def Let_def)
qed

text \<open>C10 at the response \<open>{messages: ["a"]}\<close>.\<close>

theorem C10_witness:
  "d_messages (detect_array (JObj [(''messages'', JArr [JStr ''a''])]) detect_init) = []
   \<and> (\<exists>pm. sendMessage_normalize 5 ''c1'' ''priya'' (JObj [(''messages'', JArr [JStr ''a''])])
            = Inr (SingleFormat pm)
          \<and> pm_content pm = JStr ''No content'')"
proof -
  have h1: "get_prop (JObj [(''messages'', JArr [JStr ''a''])]) ''messages'' = JArr [JStr ''a'']"
    by simp
  have h2: "\<not> truthy (get_prop (JObj [(''messages'', JArr [JStr ''a''])]) ''content'')"
    by simp
  have h3: "\<not> truthy (opt_prop (get_prop (JObj [(''messages'', JArr [JStr ''a''])]) ''data'')
              ''content'')"
    by (simp add: opt_prop_def)
  have h4: "length (elems (get_prop (get_prop (JObj [(''messages'', JArr [JStr ''a''])]) ''data'')
              ''messages'')) \<le> 1"
    by simp
  show ?thesis
    by (rule C10_single_element_array_discarded [OF h1 h2 h3 h4])
qed

subsection \<open>Demo Responder\<close>

lemma take_demo2: "take 2 demoResponses = [demoResponses ! 0, demoResponses ! 1]"
  by (simp add: demoResponses_def)

lemma take_demo3:
  "take 3 demoResponses = [demoResponses ! 0, demoResponses ! 1, demoResponses ! 2]"
  by (simp add: demoResponses_def)

lemma take_demo4:
  "take 4 demoResponses =
     [demoResponses ! 0, demoResponses ! 1, demoResponses ! 2, demoResponses ! 3]"
  by (simp add: demoResponses_def)

text \<open>\<open>Math.floor(Math.random() * 3) + 2\<close> is 2, 3 or 4.\<close>

lemma numMessages_range:
  assumes "0 \<le> rnd" "rnd < (1::rat)"
  shows "nat \<lfloor>rnd * 3\<rfloor> + 2 \<in> {2, 3, 4}"
proof -
  define k where "k = \<lfloor>rnd * 3\<rfloor>"
  have "0 \<le> k" using assms by (simp add: k_def)
  moreover have "k < 3" using assms by (simp add: k_def floor_less_iff)
  ultimately have "k = 0 \<or> k = 1 \<or> k = 2" by arith
  then have "nat k + 2 \<in> {2, 3, 4}" by auto
  then show ?thesis by (simp only: k_def)
qed

lemma demo_batch_well_formed:
  assumes clock: "mono clock"
      and n: "n \<in> {2, 3, 4}"
  shows "well_formed_batch \<lparr>r_success = True, r_isMultiMessage = True, r_totalMessages = n,
            r_messages = map (demo_message clock chatId agentId n)
                           (enumerate 0 (take n demoResponses))\<rparr>"
proof -
  have c13: "clock 1 \<le> clock 3" and c35: "clock 3 \<le> clock 5" and c57: "clock 5 \<le> clock 7"
    using clock by (simp_all add: monoD)
  from n consider "n = 2" | "n = 3" | "n = 4" by auto
  then show ?thesis
  proof cases
    case 1 then show ?thesis using c13
      by (simp add: well_formed_batch_def take_demo2 demo_message_def Let_def upt_rec)
  next
    case 2 then show ?thesis using c13 c35
      by (simp add: well_formed_batch_def take_demo3 demo_message_def Let_def upt_rec)
  next
    case 3 then show ?thesis using c13 c35 c57
      by (simp add: well_formed_batch_def take_demo4 demo_message_def Let_def upt_rec)
  qed
qed

text \<open>
  Claim C6.  In demo mode, with \<open>Math.random()\<close> in \<open>[0, 1)\<close> and a clock that does not
  run backwards between its readings, \<open>chatApi.sendMessageMulti\<close> does not fail, and the
  batch it returns is well formed: 2, 3 or 4 messages, \<open>messageIndex\<close> 1 to N in order,
  \<open>totalMessages = N\<close> throughout, \<open>isFirst\<close> on the message with index 1 only,
  \<open>isAdditional = (index > 1)\<close>, timestamps strictly increasing.
\<close>

theorem C6_demo_responder_well_formed:
  assumes "demo_mode token chatId" and "0 \<le> rnd" and "rnd < 1" and "mono clock"
  shows "\<exists>resp. sendMessageMulti token rnd clock backend chatId content agentId = Inr resp
           \<and> well_formed_batch resp"
  using assms(1) demo_batch_well_formed [OF assms(4) numMessages_range [OF assms(2,3)]]
  by (simp add: sendMessageMulti_def Let_def)

text \<open>C6 with a demo token, \<open>Math.random() = 2/3\<close> and a clock that stands still.\<close>

theorem C6_witness:
  "\<exists>resp. sendMessageMulti (Some ''demo-token-1'') (2 / 3) (\<lambda>k. 1000) (Inl TypeError)
            ''chat-1'' (units ''hello'') ''priya'' = Inr resp
         \<and> well_formed_batch resp"
proof -
  have demo: "demo_mode (Some ''demo-token-1'') ''chat-1''"
    by (simp add: demo_mode_def startsWith_def)
  have clock: "mono (\<lambda>k::nat. 1000::nat)"
    by (simp add: mono_def)
  show ?thesis
    using C6_demo_responder_well_formed [OF demo _ _ clock, of "2 / 3"] by simp
qed

subsection \<open>Reply Sequencer: pacing and the typing indicator\<close>


lemma waits_display:
  "waits acc (displayMessageWithTyping m opts @ k) = (acc + typingDelay m) # waits 0 k"
  by (simp add: displayMessageWithTyping_def)

text \<open>
  The loop waits for the typing delay of every message, and for the pause of 1500 ms on
  top of it from the second message on.
\<close>

lemma waits_display_loop:
  "i + length ms = n \<Longrightarrow>
   waits acc (display_loop T n i ms) =
     (case ms of
        [] \<Rightarrow> []
      | m # rest \<Rightarrow> (acc + typingDelay m) # map (\<lambda>m. 1500 + typingDelay m) rest)"
proof (induction ms arbitrary: i acc)
  case Nil
  then show ?case by simp
next
  case (Cons m ms)
  show ?case
  proof (cases ms)
    case Nil
    with Cons.prems show ?thesis by (simp add: waits_display)
  next
    case (Cons m' ms')
    with Cons.prems have lt: "i < n - 1" and nxt: "(i + 1) + length ms = n" by auto
    from Cons.IH [OF nxt, of 1500] Cons lt show ?thesis
      by (simp add: waits_display)
  qed
qed

lemma waits_reveal:
  "waits 0 (reveal response) =
     (case r_messages response of
        [] \<Rightarrow> []
      | m # rest \<Rightarrow> typingDelay m # map (\<lambda>m. 1500 + typingDelay m) rest)"
  using waits_display_loop [of 0 "r_messages response" "length (r_messages response)" 0]
  by (simp add: reveal_def split: list.splits)

lemma typingDelay_demo0:
  "typingDelay (demo_message clock c a n (0, demoResponses ! 0)) = 3000"
  by (simp add: typingDelay_def demo_message_def demoResponses_def units_def)

lemma typingDelay_demo1:
  "typingDelay (demo_message clock c a n (Suc 0, demoResponses ! Suc 0)) = 3000"
  by (simp add: typingDelay_def demo_message_def demoResponses_def units_def)

lemma demo_batch_at_1000:
  "sendMessageMulti None 0 (\<lambda>k. 1000) backend ''demo-chat-1000'' text ''priya''
     = Inr two_message_batch"
  using take_demo2
  by (simp add: sendMessageMulti_def demo_mode_def startsWith_def numeral_2_eq_2
      two_message_batch_def)

text \<open>
  Claim C2, as the code has it.  In the reveal of a multi-message response the wait before
  the first append is the typing delay of the first message,
  \<open>min (50 * length) 3000\<close>, and the wait between the append of a message and the append
  of the next one is 1500 ms plus the typing delay of that next message.
\<close>

theorem C2_pacing_amended:
  "waits 0 (reveal response) =
     (case r_messages response of
        [] \<Rightarrow> []
      | m # rest \<Rightarrow> typingDelay m # map (\<lambda>m. 1500 + typingDelay m) rest)"
  by (rule waits_reveal)

text \<open>C2 as the code has it, on the two-message batch of the Demo Responder.\<close>

theorem C2_pacing_witness:
  "waits 0 (reveal two_message_batch) = [3000, 4500]"
  using C2_pacing_amended [of two_message_batch]
  by (simp add: two_message_batch_def typingDelay_demo0 typingDelay_demo1)

text \<open>
  Claim C2 as the specification states it fails on the two-message batch of the Demo
  Responder: the second message is appended 4500 ms after the first, not 1500 ms, because
  its own typing delay of 3000 ms is waited for as well.
\<close>

theorem C2_pacing_counterexample:
  "sendMessageMulti None 0 (\<lambda>k. 1000) (Inl (NetworkError ''Failed to fetch''))
       ''demo-chat-1000'' (units ''hi'') ''priya'' = Inr two_message_batch
   \<and> waits 0 (reveal two_message_batch) = [3000, 4500]
   \<and> waits 0 (reveal two_message_batch) \<noteq>
        typingDelay (hd (r_messages two_message_batch))
          # replicate (length (r_messages two_message_batch) - 1) 1500"
  by (simp add: demo_batch_at_1000 waits_reveal)
     (simp add: two_message_batch_def typingDelay_demo0 typingDelay_demo1)

lemma display_loop_no_sending:
  "0 < i \<Longrightarrow> SetIsSending b \<notin> set (display_loop T n i ms)"
  by (induction ms arbitrary: i) (simp_all add: displayMessageWithTyping_def)

lemma display_loop_last:
  "ms \<noteq> [] \<Longrightarrow> i + length ms = n \<Longrightarrow>
   \<exists>pre. display_loop T n i ms = pre @ [AppendMessage (last ms)]"
proof (induction ms arbitrary: i)
  case Nil
  then show ?case by simp
next
  case (Cons m ms)
  show ?case
  proof (cases ms)
    case Nil
    with Cons.prems show ?thesis by (auto simp add: displayMessageWithTyping_def)
  next
    case (Cons m' ms')
    with Cons.prems have "ms \<noteq> []" and "(i + 1) + length ms = n" by auto
    from Cons.IH [OF this] obtain pre
      where "display_loop T n (i + 1) ms = pre @ [AppendMessage (last ms)]" by blast
    with \<open>ms \<noteq> []\<close> show ?thesis by simp
  qed
qed

text \<open>
  Claim C9.  The reveal of a batch ends with the append of its last message: no delay, and
  no other step, follows it.
\<close>

theorem C9_no_trailing_delay:
  assumes "r_messages response \<noteq> []"
  shows "\<exists>pre. reveal response = pre @ [AppendMessage (last (r_messages response))]"
  using display_loop_last [OF assms, of 0 "length (r_messages response)"]
  by (simp add: reveal_def)

text \<open>C9 on the two-message batch of the Demo Responder.\<close>

theorem C9_witness:
  "r_messages two_message_batch \<noteq> []
   \<and> (\<exists>pre. reveal two_message_batch = pre @ [AppendMessage (last (r_messages two_message_batch))])"
proof -
  have ne: "r_messages two_message_batch \<noteq> []"
    by (simp add: two_message_batch_def)
  from ne C9_no_trailing_delay [OF ne] show ?thesis by blast
qed

text \<open>
  On a response of the declared type the \<open>try\<close> block does not throw, and its steps are
  those of \<open>reveal\<close>, or of one \<open>displayMessageWithTyping\<close> without options.
\<close>

lemma display_loop_try_typed:
  "display_loop_try (Some T) n i (map Some ms) = (display_loop T n i ms, False)"
  by (induction ms arbitrary: i) (simp_all add: displayMessageWithTyping_try_def)

lemma try_block_resolved_of:
  "try_block (resolved_of response) =
     ((if r_success response \<and> r_isMultiMessage response then reveal response
       else if length (r_messages response) > 0
         then displayMessageWithTyping (r_messages response ! 0) no_options
         else []),
      False)"
  by (simp add: resolved_of_def reveal_def display_loop_try_typed displayMessageWithTyping_try_def)

subsection \<open>Chat Session Controller: a turn\<close>

text \<open>
  When the guard lets a turn through, its steps are the three of the beginning, those of
  \<open>sendMessageWithMultiResponse\<close>, and the \<open>finally\<close>.
\<close>

lemma sendMessage_ready:
  assumes "currentChat s = Some c" and "trim (message s) \<noteq> []" and "\<not> isSending s"
  shows "\<exists>um. m_content um = trim (message s) \<and> m_role um = User
           \<and> sendMessage e x s =
               [SetMessage [], SetIsSending True, AppendMessage um]
               @ sendMessageWithMultiResponse e (isDemoMode s) c (trim (message s)) (getAgentId x)
               @ [SetIsSending False]"
  using assms by (simp add: sendMessage_def)

text \<open>The guard: without a chat, with an input that trims to nothing, or while sending,
  \<open>sendMessage\<close> returns without a step.\<close>

lemma sendMessage_ignored:
  "currentChat s = None \<or> trim (message s) = [] \<or> isSending s \<Longrightarrow> sendMessage e x s = []"
  by (auto simp add: sendMessage_def split: option.splits)

text \<open>
  The steps of one turn on the typing indicator, when the gateway call resolved to a
  response of the declared type with a message in it: the indicator is set at the start of
  the turn, the reveal does nothing but set it again before the delay that precedes the
  first fragment, it is cleared right after that delay, immediately before the first
  fragment is appended, and no later step of the turn sets it again.
\<close>

lemma turn_indicator_steps:
  assumes "currentChat s = Some c" and "trim (message s) \<noteq> []" and "\<not> isSending s"
      and "e_multi e = Inr (resolved_of response)" and "r_messages response \<noteq> []"
  shows "\<exists>um ind rest.
           sendMessage e x s =
             [SetMessage [], SetIsSending True, AppendMessage um,
              Await_sendMessageMulti (chat_id c) (trim (message s)) (getAgentId x) (e_multi_latency e)]
             @ ind
             @ [Delay (typingDelay (hd (r_messages response))), SetIsSending False,
                AppendMessage (hd (r_messages response))]
             @ rest
         \<and> set ind \<subseteq> {SetIsSending True}
         \<and> isSending (exec ([SetMessage [], SetIsSending True, AppendMessage um,
              Await_sendMessageMulti (chat_id c) (trim (message s)) (getAgentId x) (e_multi_latency e)]
             @ ind) s)
         \<and> SetIsSending True \<notin> set rest"
proof -
  from assms(5) obtain m ms where ms: "r_messages response = m # ms"
    by (cases "r_messages response") auto
  from sendMessage_ready [OF assms(1-3)] obtain um where
    um: "sendMessage e x s =
           [SetMessage [], SetIsSending True, AppendMessage um]
           @ sendMessageWithMultiResponse e (isDemoMode s) c (trim (message s)) (getAgentId x)
           @ [SetIsSending False]"
    by blast
  show ?thesis
  proof (cases "r_success response \<and> r_isMultiMessage response")
    case True
    define rest where "rest = (if 0 < length (m # ms) - 1 then [Delay 1500] else [])
             @ display_loop (r_totalMessages response) (length (m # ms)) 1 ms @ [SetIsSending False]"
    have no: "SetIsSending True \<notin> set rest"
      using display_loop_no_sending [of 1 True] by (simp add: rest_def)
    have "sendMessage e x s =
             [SetMessage [], SetIsSending True, AppendMessage um,
              Await_sendMessageMulti (chat_id c) (trim (message s)) (getAgentId x) (e_multi_latency e)]
             @ [SetIsSending True]
             @ [Delay (typingDelay (hd (r_messages response))), SetIsSending False,
                AppendMessage (hd (r_messages response))]
             @ rest"
      using True assms(4) ms
      by (simp add: um sendMessageWithMultiResponse_def try_block_resolved_of reveal_def
          displayMessageWithTyping_def rest_def)
    with no show ?thesis
      by (intro exI [of _ um] exI [of _ "[SetIsSending True]"] exI [of _ rest]) simp
  next
    case False
    have "sendMessage e x s =
             [SetMessage [], SetIsSending True, AppendMessage um,
              Await_sendMessageMulti (chat_id c) (trim (message s)) (getAgentId x) (e_multi_latency e)]
             @ []
             @ [Delay (typingDelay (hd (r_messages response))), SetIsSending False,
                AppendMessage (hd (r_messages response))]
             @ [SetIsSending False]"
      using False assms(4) ms
      by (auto simp add: um sendMessageWithMultiResponse_def try_block_resolved_of
          displayMessageWithTyping_def no_options_def)
    then show ?thesis
      by (intro exI [of _ um] exI [of _ "[]"] exI [of _ "[SetIsSending False]"]) simp
  qed
qed

lemma trim_hi: "trim (units ''hi'') = units ''hi''"
  by (simp add: trim_def is_space_def units_def)

lemma trim_there: "trim (units ''there'') = units ''there''"
  by (simp add: trim_def is_space_def units_def)

lemma trim_b: "trim (units ''b'') = units ''b''"
  by (simp add: trim_def is_space_def units_def)

lemma trim_hello: "trim (units ''hello'') = units ''hello''"
  by (simp add: trim_def is_space_def units_def)

lemma units_not_empty: "s \<noteq> [] \<Longrightarrow> units s \<noteq> []"
  by (simp add: units_def)










lemma ready_session_chat:
  "currentChat (ready_session text) =
     Some \<lparr>chat_id = ''chat-1'', chat_userId = ''u1'', chat_agentId = ''priya'',
            chat_title = ''Chat with Priya'', chat_createdAt = 1000,
            chat_updatedAt = 1000, chat_messageCount = 0, chat_lastMessage = []\<rparr>"
  by (simp add: ready_session_def)



text \<open>Whatever steps run, the store keeps what it held and only grows at its end.\<close>

lemma exec_messages_extend: "\<exists>app. messages (exec steps s) = messages s @ app"
proof (induction steps arbitrary: s)
  case Nil
  then show ?case by simp
next
  case (Cons x steps)
  obtain app where a: "messages (exec steps (apply_step x s)) = messages (apply_step x s) @ app"
    using Cons.IH by blast
  show ?case by (cases x) (use a in simp_all)
qed

text \<open>
  Claim C7, as the code has it.  An input that is empty once trimmed, or one sent while the
  session has no chat or is sending, is ignored: the turn has no step, so nothing is
  appended and no gateway call is made.  For an input that is not empty once trimmed, sent
  while the session has a chat and is not sending, the turn begins by clearing the input,
  setting the typing indicator and appending the user's message (the trimmed text, role
  user), and only then calls the gateway.  Whatever steps run afterwards, of this turn or
  of any other, with the gateway failing or not, the store still begins with what it held
  before followed by that message.
\<close>

theorem C7_user_message_amended:
  "(currentChat s = None \<or> trim (message s) = [] \<or> isSending s \<longrightarrow> sendMessage e x s = [])
   \<and> (currentChat s = Some c \<and> trim (message s) \<noteq> [] \<and> \<not> isSending s \<longrightarrow>
        (\<exists>um rest.
           sendMessage e x s =
             [SetMessage [], SetIsSending True, AppendMessage um,
              Await_sendMessageMulti (chat_id c) (trim (message s)) (getAgentId x) (e_multi_latency e)]
             @ rest
         \<and> m_content um = trim (message s) \<and> m_role um = User
         \<and> (\<forall>later. take (Suc (length (messages s)))
                      (messages (exec later
                         (exec [SetMessage [], SetIsSending True, AppendMessage um] s)))
                    = messages s @ [um])))"
proof (intro conjI impI)
  assume "currentChat s = None \<or> trim (message s) = [] \<or> isSending s"
  then show "sendMessage e x s = []" by (rule sendMessage_ignored)
next
  assume ready: "currentChat s = Some c \<and> trim (message s) \<noteq> [] \<and> \<not> isSending s"
  then have r1: "currentChat s = Some c" and r2: "trim (message s) \<noteq> []" and r3: "\<not> isSending s"
    by simp_all
  from sendMessage_ready [OF r1 r2 r3] obtain um where
    c: "m_content um = trim (message s)" and r: "m_role um = User" and
    um: "sendMessage e x s =
           [SetMessage [], SetIsSending True, AppendMessage um]
           @ sendMessageWithMultiResponse e (isDemoMode s) c (trim (message s)) (getAgentId x)
           @ [SetIsSending False]"
    by blast
  obtain rest where rest: "sendMessage e x s =
             [SetMessage [], SetIsSending True, AppendMessage um,
              Await_sendMessageMulti (chat_id c) (trim (message s)) (getAgentId x) (e_multi_latency e)]
             @ rest"
    by (simp add: um sendMessageWithMultiResponse_def)
  have keep: "take (Suc (length (messages s)))
                (messages (exec later (exec [SetMessage [], SetIsSending True, AppendMessage um] s)))
              = messages s @ [um]" for later
  proof -
    obtain app where
      "messages (exec later (exec [SetMessage [], SetIsSending True, AppendMessage um] s))
        = messages (exec [SetMessage [], SetIsSending True, AppendMessage um] s) @ app"
      using exec_messages_extend by blast
    then show ?thesis by simp
  qed
  from rest c r keep show "\<exists>um rest.
           sendMessage e x s =
             [SetMessage [], SetIsSending True, AppendMessage um,
              Await_sendMessageMulti (chat_id c) (trim (message s)) (getAgentId x) (e_multi_latency e)]
             @ rest
         \<and> m_content um = trim (message s) \<and> m_role um = User
         \<and> (\<forall>later. take (Suc (length (messages s)))
                      (messages (exec later
                         (exec [SetMessage [], SetIsSending True, AppendMessage um] s)))
                    = messages s @ [um])"
    by blast
qed

text \<open>
  C7 as the code has it, on a ready session whose backend is unreachable.  An input of an
  ideographic space (U+3000) and a tab is ignored; for the input \<open>hello\<close> the user's
  message is still in the store when the whole turn has run.
\<close>

theorem C7_user_message_witness:
  "sendMessage failing_env ''Priya'' (ready_session [0x3000, 0x09]) = []
   \<and> (\<exists>um rest.
     sendMessage failing_env ''Priya'' (ready_session (units ''hello'')) =
       [SetMessage [], SetIsSending True, AppendMessage um,
        Await_sendMessageMulti ''chat-1'' (units ''hello'') ''priya'' 20] @ rest
     \<and> m_content um = units ''hello'' \<and> m_role um = User
     \<and> take 1 (messages (exec rest
          (exec [SetMessage [], SetIsSending True, AppendMessage um]
             (ready_session (units ''hello'')))))
        = [um])"
proof -
  have blank: "trim (message (ready_session [0x3000, 0x09])) = []"
    by (simp add: ready_session_def trim_def is_space_def)
  have ignored: "sendMessage failing_env ''Priya'' (ready_session [0x3000, 0x09]) = []"
    using C7_user_message_amended [of "ready_session [0x3000, 0x09]" failing_env "''Priya''"]
      blank
    by blast
  have h1: "currentChat (ready_session (units ''hello'')) =
     Some \<lparr>chat_id = ''chat-1'', chat_userId = ''u1'', chat_agentId = ''priya'',
            chat_title = ''Chat with Priya'', chat_createdAt = 1000,
            chat_updatedAt = 1000, chat_messageCount = 0, chat_lastMessage = []\<rparr>"
    by (rule ready_session_chat)
  have m: "message (ready_session (units ''hello'')) = units ''hello''"
     and ms: "messages (ready_session (units ''hello'')) = []"
     and h3: "\<not> isSending (ready_session (units ''hello''))"
     and l: "e_multi_latency failing_env = 20"
    by (simp_all add: ready_session_def failing_env_def)
  have h2: "trim (message (ready_session (units ''hello''))) \<noteq> []"
    by (simp add: m trim_hello units_not_empty)
  from C7_user_message_amended [of "ready_session (units ''hello'')" failing_env "''Priya''"
      "\<lparr>chat_id = ''chat-1'', chat_userId = ''u1'', chat_agentId = ''priya'',
            chat_title = ''Chat with Priya'', chat_createdAt = 1000,
            chat_updatedAt = 1000, chat_messageCount = 0, chat_lastMessage = []\<rparr>"]
    h1 h2 h3
  obtain um rest where
    "sendMessage failing_env ''Priya'' (ready_session (units ''hello'')) =
       [SetMessage [], SetIsSending True, AppendMessage um,
        Await_sendMessageMulti ''chat-1'' (units ''hello'') ''priya'' 20] @ rest"
    and "m_content um = units ''hello''" and "m_role um = User"
    and "\<forall>later. take (Suc 0) (messages (exec later
            (exec [SetMessage [], SetIsSending True, AppendMessage um]
               (ready_session (units ''hello'')))))
          = [um]"
    by (auto simp add: m ms l trim_hello getAgentId_def)
  then have "\<exists>um rest.
     sendMessage failing_env ''Priya'' (ready_session (units ''hello'')) =
       [SetMessage [], SetIsSending True, AppendMessage um,
        Await_sendMessageMulti ''chat-1'' (units ''hello'') ''priya'' 20] @ rest
     \<and> m_content um = units ''hello'' \<and> m_role um = User
     \<and> take 1 (messages (exec rest
          (exec [SetMessage [], SetIsSending True, AppendMessage um]
             (ready_session (units ''hello'')))))
        = [um]"
    by (intro exI [of _ um] exI [of _ rest]) simp
  with ignored show ?thesis by blast
qed

text \<open>
  Claim C7 as the specification states it fails on an input of three spaces: the input is
  not empty, and the guard of \<open>sendMessage\<close> returns without a step, so that nothing is
  appended and no gateway call is made.
\<close>

theorem C7_user_message_counterexample:
  "message (ready_session (units ''   '')) \<noteq> []
   \<and> sendMessage failing_env ''Priya'' (ready_session (units ''   '')) = []"
  by (simp add: sendMessage_def ready_session_def trim_def is_space_def units_def)

subsection \<open>Two overlapping turns\<close>

lemma typing_demo_env:
  "e_multi (demo_env now text) =
     Inr (Resolved True True (Some 2)
       [Some (demo_message (\<lambda>k. now) ''demo-chat-1000'' ''priya'' 2 (0, demoResponses ! 0)),
        Some (demo_message (\<lambda>k. now) ''demo-chat-1000'' ''priya'' 2
                (Suc 0, demoResponses ! Suc 0))])"
  using take_demo2
  by (simp add: demo_env_def sendMessageMulti_def demo_mode_def startsWith_def numeral_2_eq_2
      resolved_of_def)

text \<open>The steps of a turn of the demo session that the guard lets through.\<close>

lemma demo_turn_script:
  assumes "currentChat s = Some demo_chat" and "\<not> isSending s"
      and "trim (message s) = text" and "text \<noteq> []"
  shows "sendMessage (demo_env now t) x s =
     [SetMessage [], SetIsSending True,
      AppendMessage \<lparr>m_id = ''user-'' @ show_nat now, m_chatId = ''demo-chat-1000'',
         m_userId = ''u1'', m_agentId = ''priya'', m_content = text, m_role = User,
         m_timestamp = now, m_isMultiMessage = None, m_isFirst = None, m_isAdditional = None,
         m_messageIndex = None, m_totalMessages = None\<rparr>,
      Await_sendMessageMulti ''demo-chat-1000'' text ''priya'' 0,
      SetIsSending True, Delay 3000, SetIsSending False,
      AppendMessage (demo_message (\<lambda>k. now) ''demo-chat-1000'' ''priya'' 2 (0, demoResponses ! 0)),
      Delay 1500, Delay 3000,
      AppendMessage
        (demo_message (\<lambda>k. now) ''demo-chat-1000'' ''priya'' 2 (Suc 0, demoResponses ! Suc 0)),
      SetIsSending False]"
  using assms
  by (simp add: sendMessage_def sendMessageWithMultiResponse_def typing_demo_env
      displayMessageWithTyping_try_def displayMessageWithTyping_def typingDelay_demo0
      typingDelay_demo1 demo_chat_def getAgentId_def)
     (simp add: demo_env_def)

text \<open>One round of the event loop, for a numeral of fuel.\<close>

lemma event_loop_numeral:
  "event_loop (numeral k) x subs ts s =
     (case (earliest ts, subs) of
        (None, []) \<Rightarrow> Some s
      | (None, (t, text, e) # subs') \<Rightarrow>
          (case run_task t (sendMessage e x (s\<lparr>message := text\<rparr>))
                  (s\<lparr>message := text\<rparr>) ts of
             (s', ts') \<Rightarrow> event_loop (pred_numeral k) x subs' ts' s')
      | (Some (w, k'), []) \<Rightarrow>
          (case run_task w k' s (remove1 (w, k') ts) of
             (s', ts') \<Rightarrow> event_loop (pred_numeral k) x subs ts' s')
      | (Some (w, k'), (t, text, e) # subs') \<Rightarrow>
          if t < w then
            (case run_task t (sendMessage e x (s\<lparr>message := text\<rparr>))
                    (s\<lparr>message := text\<rparr>) ts of
               (s', ts') \<Rightarrow> event_loop (pred_numeral k) x subs' ts' s')
          else
            (case run_task w k' s (remove1 (w, k') ts) of
               (s', ts') \<Rightarrow> event_loop (pred_numeral k) x subs ts' s'))"
  by (simp add: numeral_eq_Suc)

text \<open>
  Claim C1, on the code.  In a demo session the user sends \<open>hi\<close> at time 0 and
  \<open>there\<close> at time 3100, after the first fragment of the first reply has appeared
  (time 3000) and before the second has (time 7500).  The guard lets the second turn
  through, because the reveal cleared \<open>isSending\<close> with the first fragment.  The store
  ends as: first user message, first fragment of turn A, second user message, first
  fragment of turn B, second fragment of turn A, second fragment of turn B.
\<close>

theorem C1_overlapping_turns_interleave:
  "map_option (map m_id \<circ> messages)
     (event_loop 40 ''Priya''
        [(0, units ''hi'', demo_env 1000 (units ''hi'')),
         (3100, units ''there'', demo_env 4100 (units ''there''))]
        [] demo_session)
   = Some [''user-1000'', ''demo-multi-1000-0'', ''user-4100'',
           ''demo-multi-4100-0'', ''demo-multi-1000-1'', ''demo-multi-4100-1'']"
  apply (subst event_loop_numeral,
         simp add: demo_turn_script trim_hi trim_there units_not_empty demo_session_def)+
  apply (simp add: demo_message_def show_nat.simps)
  done

text \<open>The rounds of \<open>event_log\<close> are those of \<open>event_loop\<close>.\<close>

lemma event_loop_next_round:
  "event_loop (Suc fuel) x subs ts s =
     (case next_round x subs ts s of
        None \<Rightarrow> Some s
      | Some (t, subs', ts', s') \<Rightarrow> event_loop fuel x subs' ts' s')"
  by (simp add: next_round_def split: option.splits list.splits prod.splits)

lemma event_log_numeral:
  "event_log (numeral k) x subs ts s =
     (case next_round x subs ts s of
        None \<Rightarrow> Some []
      | Some (t, subs', ts', s') \<Rightarrow>
          (case event_log (pred_numeral k) x subs' ts' s' of
             None \<Rightarrow> None
           | Some rounds \<Rightarrow>
               Some ((t, isSending s', map m_id (drop (length (messages s)) (messages s')))
                     # rounds)))"
  by (simp add: numeral_eq_Suc)

text \<open>
  Claim C5, on the code.  In a demo session the user sends \<open>hi\<close> at time 0 and \<open>b\<close>
  at time 7000, after the first fragment of the first reply has appeared (time 3000) and
  before the second has (time 7500).  The reveal of turn B begins at 7000 and appends its
  first fragment at 10000.  At 7500 the \<open>finally\<close> of turn A clears \<open>isSending\<close>: the
  typing indicator is off from then until 10000, during the delay that precedes the first
  fragment of batch B.  It had been set at 7000, by turn B, while batch A was still being
  revealed.
\<close>

theorem C5_indicator_off_before_first_fragment:
  "event_log 40 ''Priya''
     [(0, units ''hi'', demo_env 1000 (units ''hi'')),
      (7000, units ''b'', demo_env 8000 (units ''b''))]
     [] demo_session
   = Some [(0, True, [''user-1000'']),
           (3000, False, [''demo-multi-1000-0'']),
           (4500, False, []),
           (7000, True, [''user-8000'']),
           (7500, False, [''demo-multi-1000-1'']),
           (10000, False, [''demo-multi-8000-0'']),
           (11500, False, []),
           (14500, False, [''demo-multi-8000-1''])]"
  apply (subst event_log_numeral,
         simp add: next_round_def demo_turn_script trim_hi trim_b units_not_empty
           demo_session_def)+
  apply (simp add: demo_message_def show_nat.simps)
  done

subsection \<open>Streaming transport\<close>

text \<open>
  Claim C8, on the code.  In a chunk where a \<open>message\<close> record follows the
  \<open>complete\<close> record, the transport calls \<open>onComplete\<close> and then still delivers the
  message: the \<open>complete\<close> branch does not end the sequence of callbacks.
\<close>

theorem C8_callbacks_after_complete:
  "sendMessageStream example_parse (Body [Chunk late_chunk])
     = [OnComplete, OnMessage (JObj [(''type'', JStr ''message''), (''data'', JStr ''late'')])]"
  by (simp add: late_chunk_def example_parse_def handle_line_def startsWith_def)

text \<open>
  The rest of the transport's behaviour.  An \<open>error\<close> record ends the calls:
  \<open>onError\<close> is only ever the last call.
\<close>

lemma handle_line_error:
  "handle_line parse l = (cs, r) \<Longrightarrow>
   (if r then \<exists>v. cs = [OnError v] else \<forall>v. OnError v \<notin> set cs)"
  by (auto simp add: handle_line_def split: if_splits option.splits)

lemma handle_lines_error:
  "handle_lines parse ls = (cs, r) \<Longrightarrow>
   (if r then \<exists>pre v. cs = pre @ [OnError v] \<and> (\<forall>w. OnError w \<notin> set pre)
    else \<forall>v. OnError v \<notin> set cs)"
proof (induction ls arbitrary: cs r)
  case Nil
  then show ?case by simp
next
  case (Cons l ls)
  obtain c1 r1 where h: "handle_line parse l = (c1, r1)" by (cases "handle_line parse l")
  show ?case
  proof (cases r1)
    case True
    with h Cons.prems have "cs = c1" and "r" by simp_all
    moreover from handle_line_error [OF h] True obtain v where "c1 = [OnError v]" by auto
    ultimately show ?thesis by simp
  next
    case False
    obtain c2 r2 where t: "handle_lines parse ls = (c2, r2)" by (cases "handle_lines parse ls")
    with h False Cons.prems have cs: "cs = c1 @ c2" and r: "r = r2" by simp_all
    from handle_line_error [OF h] False have c1: "\<forall>v. OnError v \<notin> set c1" by simp
    show ?thesis
    proof (cases r2)
      case True
      with Cons.IH [OF t] obtain pre v where
        "c2 = pre @ [OnError v]" and "\<forall>w. OnError w \<notin> set pre" by auto
      with c1 cs r True show ?thesis
        by (auto intro!: exI [of _ "c1 @ pre"] exI [of _ v])
    next
      case False
      with Cons.IH [OF t] c1 cs r show ?thesis by auto
    qed
  qed
qed

lemma snoc_split_last:
  "p @ [a] = pre @ b # post \<Longrightarrow> b \<notin> set p \<Longrightarrow> post = []"
proof (cases post rule: rev_cases)
  case Nil
  then show ?thesis by simp
next
  case (snoc post' z)
  assume "p @ [a] = pre @ b # post" and "b \<notin> set p"
  with snoc have "p @ [a] = (pre @ b # post') @ [z]" by simp
  then have "p = pre @ b # post'" by (simp only: append1_eq_conv)
  with \<open>b \<notin> set p\<close> show ?thesis by simp
qed

lemma append_split_later:
  "cs @ rl = pre @ b # post \<Longrightarrow> b \<notin> set cs \<Longrightarrow> \<exists>pre'. rl = pre' @ b # post"
proof (induction cs arbitrary: pre)
  case Nil
  then show ?case by auto
next
  case (Cons c cs)
  then show ?case by (cases pre) auto
qed

lemma read_loop_error_last:
  "read_loop parse rs = pre @ OnError v # post \<Longrightarrow> post = []"
proof (induction rs arbitrary: pre)
  case Nil
  then show ?case by simp
next
  case (Cons x rs)
  show ?case
  proof (cases x)
    case (ReadFailed msg)
    with Cons.prems have "[OnError (JStr msg)] = pre @ OnError v # post" by simp
    then show ?thesis by (cases pre) simp_all
  next
    case (Chunk chunk)
    obtain cs r where h: "handle_lines parse (split_lines chunk) = (cs, r)"
      by (cases "handle_lines parse (split_lines chunk)")
    show ?thesis
    proof (cases r)
      case True
      with handle_lines_error [OF h] obtain p w where
        cs: "cs = p @ [OnError w]" and p: "\<forall>u. OnError u \<notin> set p" by auto
      from Chunk h True Cons.prems have "p @ [OnError w] = pre @ OnError v # post"
        by (simp add: cs)
      with p snoc_split_last [of p "OnError w" pre "OnError v" post] show ?thesis by simp
    next
      case False
      with handle_lines_error [OF h] have no: "\<forall>u. OnError u \<notin> set cs" by simp
      from Chunk h False Cons.prems have eq: "cs @ read_loop parse rs = pre @ OnError v # post"
        by simp
      from no have "OnError v \<notin> set cs" by simp
      from append_split_later [OF eq this] obtain pre'
        where "read_loop parse rs = pre' @ OnError v # post" by blast
      with Cons.IH show ?thesis by blast
    qed
  qed
qed

lemma stream_error_last:
  "sendMessageStream parse response = pre @ OnError v # post \<Longrightarrow> post = []"
proof (cases response)
  case (FetchFailed msg)
  assume "sendMessageStream parse response = pre @ OnError v # post"
  with FetchFailed show ?thesis by (cases pre) simp_all
next
  case NoBody
  assume "sendMessageStream parse response = pre @ OnError v # post"
  with NoBody show ?thesis by (cases pre) simp_all
next
  case (Body rs)
  assume "sendMessageStream parse response = pre @ OnError v # post"
  with Body show ?thesis by (simp add: read_loop_error_last)
qed

text \<open>
  A \<open>message\<close> record is handed on with its \<open>data\<close> as it is; a record that does
  not parse gives a warning; neither ends the loop over the lines, which makes the calls
  of the lines in their order.
\<close>

lemma handle_line_message:
  "parse payload = Some (JObj kvs) \<Longrightarrow> map_of kvs ''type'' = Some (JStr ''message'') \<Longrightarrow>
   handle_line parse (''data: '' @ payload) =
     ([OnMessage (JObj [(''type'', JStr ''message''), (''data'', get_prop (JObj kvs) ''data'')])],
      False)"
  by (simp add: handle_line_def startsWith_def)

lemma handle_line_malformed:
  "parse payload = None \<Longrightarrow>
   handle_line parse (''data: '' @ payload) = ([Warn (''data: '' @ payload)], False)"
  by (simp add: handle_line_def startsWith_def)

lemma handle_lines_continue:
  "handle_line parse l = (cs, False) \<Longrightarrow>
   handle_lines parse (l # ls) = (cs @ fst (handle_lines parse ls), snd (handle_lines parse ls))"
  by (simp split: prod.splits)

end
